theory Spec2Isabelle
  imports Main "HOL-Library.Sublist"
begin

section \<open>Strings\<close>

text \<open>
  A Python \<open>str\<close> is modelled as a \<open>string\<close>. The literals of \<open>main.py\<close> are ASCII
  except for a few accented letters and pictographs; those are written as their
  UTF-8 bytes. Every keyword the responder looks for is ASCII, so a keyword occurs
  in a text exactly when its bytes occur in the text's bytes.
\<close>

text \<open>\<open>k in t\<close> on strings: \<open>k\<close> occurs in \<open>t\<close> as a contiguous substring.\<close>

fun py_in :: "string \<Rightarrow> string \<Rightarrow> bool" where
  "py_in k [] = (k = [])"
| "py_in k (c # cs) = (prefix k (c # cs) \<or> py_in k cs)"

text \<open>\<open>any(k in t for k in ks)\<close>.\<close>

definition any_in :: "string list \<Rightarrow> string \<Rightarrow> bool" where
  "any_in ks t = list_ex (\<lambda>k. py_in k t) ks"

text \<open>
  \<open>str.isspace\<close> on one character, for the ASCII range: tab, line feed, vertical tab,
  form feed, carriage return, the four separators \<open>0x1C\<close> to \<open>0x1F\<close>, and the space.
  \<open>strip\<close> is only ever applied to \<open>reply + " "\<close>, where \<open>reply\<close> is built from the
  fixed sentences below, and none of them holds whitespace outside ASCII.
\<close>

definition py_isspace :: "char \<Rightarrow> bool" where
  "py_isspace c = (let n = (of_char c :: nat) in (9 \<le> n \<and> n \<le> 13) \<or> (28 \<le> n \<and> n \<le> 32))"

text \<open>\<open>s.strip()\<close>: whitespace removed at both ends.\<close>

definition py_strip :: "string \<Rightarrow> string" where
  "py_strip s = rev (dropWhile py_isspace (rev (dropWhile py_isspace s)))"

text \<open>
  \<open>text.lower()\<close> maps every cased letter of Unicode to its lower-case form, a table
  that is part of the Python runtime and not of the repository. The responder and
  the chat endpoint therefore take the lower-casing function as their first
  argument; what is proved about them holds for every such function.
  \<open>ascii_lower\<close> is \<open>str.lower\<close> on ASCII text, used to run the model on examples.
\<close>

definition lower_char :: "char \<Rightarrow> char" where
  "lower_char c =
     (case map_of (zip ''ABCDEFGHIJKLMNOPQRSTUVWXYZ'' ''abcdefghijklmnopqrstuvwxyz'') c of
        Some d \<Rightarrow> d
      | None \<Rightarrow> c)"

definition ascii_lower :: "string \<Rightarrow> string" where
  "ascii_lower s = map lower_char s"

section \<open>Exceptions and HTTP responses\<close>

text \<open>
  A Python exception caught by \<open>except Exception as e\<close> is a value \<open>Exception m\<close>,
  where \<open>m\<close> is what \<open>str(e)\<close> gives. A call that may raise returns a sum:
  \<open>Inl e\<close> when it raises \<open>e\<close>, \<open>Inr v\<close> when it returns \<open>v\<close>.
\<close>

datatype exn = Exception string

fun str_exn :: "exn \<Rightarrow> string" where
  "str_exn (Exception m) = m"

text \<open>
  \<open>raise HTTPException(status_code=c, detail=d)\<close> ends a handler with the value
  \<open>Inl (HTTPException c d)\<close>; a handler that returns \<open>v\<close> ends with \<open>Inr v\<close>.
\<close>

datatype http_exception = HTTPException (status_code: nat) (detail: string)

text \<open>
  What the framework sends back. A handler that returns is answered with status 200
  and the returned object (no route of \<open>main.py\<close> sets another status). An
  \<open>HTTPException\<close> is answered with its status code and its detail text. A request
  body that does not validate against the model of the handler's parameter is
  answered with status 422 and the list of validation errors, and the handler is
  not called; \<open>main.py\<close> registers no exception handler that would change this.
\<close>

datatype error_detail = Text string | Validation_errors "string list"

datatype 'a http_response = Ok_response 'a | Error_response nat error_detail

fun status_of :: "'a http_response \<Rightarrow> nat" where
  "status_of (Ok_response v) = 200"
| "status_of (Error_response c d) = c"

fun respond :: "http_exception + 'a \<Rightarrow> 'a http_response" where
  "respond (Inl (HTTPException c d)) = Error_response c (Text d)"
| "respond (Inr v) = Ok_response v"

section \<open>The diagnostic endpoint \<open>GET /test\<close>\<close>

text \<open>
  The store handle \<open>db\<close> imported from \<open>database\<close> is \<open>None\<close> or an object. Of the
  object the endpoint reads the attribute \<open>name\<close> (\<open>hasattr(db, 'name')\<close>, then
  \<open>db.name\<close>) and calls \<open>list_collection_names()\<close>. Reading the attribute finds no
  attribute, finds a value, or raises; the call returns the names or raises.
\<close>

datatype attribute = No_attribute | Attribute string | Attribute_raises exn

record db_handle =
  name_attr :: attribute
  list_collection_names :: "exn + string list"

text \<open>The handle and the environment variable \<open>DATABASE_URL\<close> (\<open>os.getenv\<close>).\<close>

record environment =
  db :: "db_handle option"
  DATABASE_URL :: "string option"

text \<open>The response dictionary; its key \<open>"database"\<close> is the field \<open>database\<close>.\<close>

record test_response =
  backend :: string
  database :: string
  database_url :: "string option"
  database_name :: "string option"
  connection_status :: string
  collections :: "string list"

text \<open>The pictographs of the status strings, as UTF-8 bytes.\<close>

definition check_mark :: string where
  "check_mark = [CHR 0xE2, CHR 0x9C, CHR 0x85]"

definition cross_mark :: string where
  "cross_mark = [CHR 0xE2, CHR 0x9D, CHR 0x8C]"

definition warning_sign :: string where
  "warning_sign = [CHR 0xE2, CHR 0x9A, CHR 0xA0, CHR 0xEF, CHR 0xB8, CHR 0x8F]"

text \<open>
  A block of statements that mutates \<open>response\<close> and may raise returns the updated
  dictionary, or the exception together with the dictionary as it was when the
  exception left the block. \<open>str(e)[:50]\<close> is \<open>take 50 (str_exn e)\<close>.
\<close>

text \<open>The body of the inner \<open>try\<close> (lines 45 to 47).\<close>

definition inner_try :: "db_handle \<Rightarrow> test_response \<Rightarrow> (exn \<times> test_response) + test_response" where
  "inner_try d response =
     (case list_collection_names d of
        Inl e \<Rightarrow> Inl (e, response)
      | Inr names \<Rightarrow>
          (let response = response\<lparr>collections := take 10 names\<rparr>;
               response = response\<lparr>database := check_mark @ '' Connected & Working''\<rparr>
           in Inr response))"

text \<open>The body of the outer \<open>try\<close> (lines 39 to 51), the inner \<open>except\<close> included.\<close>

definition outer_try :: "environment \<Rightarrow> test_response \<Rightarrow> (exn \<times> test_response) + test_response" where
  "outer_try env response =
     (case db env of
        None \<Rightarrow> Inr (response\<lparr>database := warning_sign @ ''  Available but not initialized''\<rparr>)
      | Some d \<Rightarrow>
          (let response = response\<lparr>database := check_mark @ '' Available''\<rparr>;
               response = response\<lparr>database_url :=
                 Some (case DATABASE_URL env of
                         Some (c # cs) \<Rightarrow> check_mark @ '' Set''
                       | _ \<Rightarrow> cross_mark @ '' Not Set'')\<rparr>
           in case name_attr d of
                Attribute_raises e \<Rightarrow> Inl (e, response)
              | a \<Rightarrow>
                  (let response = response\<lparr>database_name :=
                         Some (case a of Attribute n \<Rightarrow> n | _ \<Rightarrow> check_mark @ '' Connected'')\<rparr>;
                       response = response\<lparr>connection_status := ''Connected''\<rparr>
                   in case inner_try d response of
                        Inr response \<Rightarrow> Inr response
                      | Inl (e, response) \<Rightarrow>
                          Inr (response\<lparr>database :=
                            warning_sign @ ''  Connected but Error: '' @ take 50 (str_exn e)\<rparr>))))"

definition test_database :: "environment \<Rightarrow> exn + test_response" where
  "test_database env =
     (let response =
            \<lparr>backend = check_mark @ '' Running'',
             database = cross_mark @ '' Not Available'',
             database_url = None,
             database_name = None,
             connection_status = ''Not Connected'',
             collections = []\<rparr>
      in case outer_try env response of
           Inr response \<Rightarrow> Inr response
         | Inl (e, response) \<Rightarrow>
             Inr (response\<lparr>database := cross_mark @ '' Error: '' @ take 50 (str_exn e)\<rparr>))"

text \<open>
  The route: an exception that left the handler would be answered with status 500.
\<close>

definition get_test :: "environment \<Rightarrow> test_response http_response" where
  "get_test env =
     (case test_database env of
        Inl e \<Rightarrow> Error_response 500 (Text ''Internal Server Error'')
      | Inr response \<Rightarrow> Ok_response response)"

section \<open>Reservations\<close>

record ReservationCreate =
  name :: string
  phone :: string
  date :: string
  time :: string
  party_size :: int
  occasion :: "string option"
  notes' :: "string option"

text \<open>
  The JSON body of a creation request, field by field: \<open>None\<close> is a field that is
  absent. The model \<open>ReservationCreate\<close> requires the five fields declared with
  \<open>Field(...)\<close> and bounds \<open>party_size\<close> by \<open>ge=1, le=20\<close>; its field \<open>notes\<close>
  is written \<open>notes'\<close> here.
  \<open>validation_errors\<close> lists the fields that fail.
\<close>

record reservation_body =
  body_name :: "string option"
  body_phone :: "string option"
  body_date :: "string option"
  body_time :: "string option"
  body_party_size :: "int option"
  body_occasion :: "string option"
  body_notes :: "string option"

definition validation_errors :: "reservation_body \<Rightarrow> string list" where
  "validation_errors b =
     (if body_name b = None then [''name''] else []) @
     (if body_phone b = None then [''phone''] else []) @
     (if body_date b = None then [''date''] else []) @
     (if body_time b = None then [''time''] else []) @
     (case body_party_size b of
        None \<Rightarrow> [''party_size'']
      | Some n \<Rightarrow> if 1 \<le> n \<and> n \<le> 20 then [] else [''party_size''])"

definition parse_ReservationCreate :: "reservation_body \<Rightarrow> string list + ReservationCreate" where
  "parse_ReservationCreate b =
     (if validation_errors b \<noteq> [] then Inl (validation_errors b)
      else Inr \<lparr>name = the (body_name b), phone = the (body_phone b), date = the (body_date b),
                time = the (body_time b), party_size = the (body_party_size b),
                occasion = body_occasion b, notes' = body_notes b\<rparr>)"

record create_response =
  status :: string
  inserted :: string

text \<open>
  \<open>create_reservation\<close>. The canonical schema \<open>schemas.Reservation\<close> and
  \<open>database.create_document\<close> are not among the sources; they are the parameters
  \<open>ReservationSchema\<close> and \<open>create_document\<close>, each of which returns or raises. The
  field \<open>inserted\<close> is the key \<open>"id"\<close> of the returned dictionary.
\<close>

definition create_reservation ::
  "(ReservationCreate \<Rightarrow> exn + 'r) \<Rightarrow> ('r \<Rightarrow> exn + string) \<Rightarrow> ReservationCreate
     \<Rightarrow> http_exception + create_response" where
  "create_reservation ReservationSchema create_document payload =
     (case ReservationSchema payload of
        Inl e \<Rightarrow> Inl (HTTPException 400 (str_exn e))
      | Inr reservation \<Rightarrow>
          (case create_document reservation of
             Inl e \<Rightarrow> Inl (HTTPException 400 (str_exn e))
           | Inr inserted_id \<Rightarrow> Inr \<lparr>status = ''ok'', inserted = inserted_id\<rparr>))"

text \<open>The route \<open>POST /api/reservations\<close>: the body is validated, then the handler runs.\<close>

definition post_api_reservations ::
  "(ReservationCreate \<Rightarrow> exn + 'r) \<Rightarrow> ('r \<Rightarrow> exn + string) \<Rightarrow> reservation_body
     \<Rightarrow> create_response http_response" where
  "post_api_reservations ReservationSchema create_document body =
     (case parse_ReservationCreate body of
        Inl errors \<Rightarrow> Error_response 422 (Validation_errors errors)
      | Inr payload \<Rightarrow> respond (create_reservation ReservationSchema create_document payload))"

subsection \<open>Listing\<close>

text \<open>
  The values a stored document holds, and \<open>str\<close> on them: the hexadecimal text of an
  \<open>ObjectId\<close>, a string itself, the decimal digits of an integer, \<open>None\<close>.
\<close>

datatype py_value = ObjectId string | StrV string | IntV int | NoneV

type_synonym document = "string \<rightharpoonup> py_value"

function str_nat :: "nat \<Rightarrow> string" where
  "str_nat n =
     (if n < 10 then [''0123456789'' ! n]
      else str_nat (n div 10) @ [''0123456789'' ! (n mod 10)])"
  by pat_completeness auto
termination
  by (relation "measure (\<lambda>n. n)") auto

definition str_int :: "int \<Rightarrow> string" where
  "str_int i = (if i < 0 then CHR ''-'' # str_nat (nat (- i)) else str_nat (nat i))"

fun str_value :: "py_value \<Rightarrow> string" where
  "str_value (ObjectId h) = h"
| "str_value (StrV s) = s"
| "str_value (IntV i) = str_int i"
| "str_value NoneV = ''None''"

text \<open>
  Modelled from the spec: \<open>get_documents\<close> of \<open>database.py\<close>, which is not among the
  sources. The spec: "\<open>get_documents(collection, filter, limit)\<close>: returns up to
  \<open>limit\<close> matching records (current callers pass an empty filter to mean all)";
  "adapter failures propagate as exceptions"; a reservation's identifier is
  "assigned by the store on insert". The collection is either unreachable, and the
  call raises, or a sequence of stored records, each with its identifier \<open>oid\<close>
  under the key \<open>"_id"\<close>. For a limit of zero or more the first \<open>limit\<close> records
  are returned. The spec states no result for a limit below zero: what the call
  does then is the parameter \<open>below_zero\<close>.
\<close>

record stored =
  oid :: string
  contents :: document

definition stored_document :: "stored \<Rightarrow> document" where
  "stored_document r = (contents r)(''_id'' \<mapsto> ObjectId (oid r))"

definition get_documents ::
  "(stored list \<Rightarrow> int \<Rightarrow> exn + document list) \<Rightarrow> exn + stored list \<Rightarrow> int
     \<Rightarrow> exn + document list" where
  "get_documents below_zero collection limit =
     (case collection of
        Inl e \<Rightarrow> Inl e
      | Inr records \<Rightarrow>
          if limit < 0 then below_zero records limit
          else Inr (map stored_document (take (nat limit) records)))"

text \<open>The body of the loop: \<open>if "_id" in d: d["id"] = str(d.pop("_id"))\<close>.\<close>

definition convert_id :: "document \<Rightarrow> document" where
  "convert_id d =
     (case d ''_id'' of
        None \<Rightarrow> d
      | Some v \<Rightarrow> (d(''_id'' := None))(''id'' \<mapsto> StrV (str_value v)))"

record items_response =
  items :: "document list"

text \<open>\<open>list_reservations\<close>, with \<open>get_documents("reservation", {}, limit)\<close> as its first argument.\<close>

definition list_reservations ::
  "(int \<Rightarrow> exn + document list) \<Rightarrow> int \<Rightarrow> http_exception + items_response" where
  "list_reservations get_docs limit =
     (case get_docs limit of
        Inl e \<Rightarrow> Inl (HTTPException 500 (str_exn e))
      | Inr docs \<Rightarrow> Inr \<lparr>items = map convert_id docs\<rparr>)"

definition get_api_reservations ::
  "(stored list \<Rightarrow> int \<Rightarrow> exn + document list) \<Rightarrow> exn + stored list \<Rightarrow> int
     \<Rightarrow> items_response http_response" where
  "get_api_reservations below_zero collection limit =
     respond (list_reservations (get_documents below_zero collection) limit)"

section \<open>The rule-based responder\<close>

record ChatMessage =
  role :: string
  content :: string

record ChatRequest =
  messages :: "ChatMessage list"

record ChatResponse =
  reply :: string
  suggestions :: "string list"
  maybe_reservation :: "(string \<times> string) list option"

subsection \<open>The fixed keyword groups, suggestions and sentences\<close>

definition wine_keywords :: "string list" where
  "wine_keywords = [''wine'', ''pairing'', ''sommelier'']"

definition steak_keywords :: "string list" where
  "steak_keywords = [''steak'', ''beef'', ''wagyu'']"

definition vegan_keywords :: "string list" where
  "vegan_keywords = [''vegan'', ''vegetarian'']"

definition dessert_keywords :: "string list" where
  "dessert_keywords = [''dessert'', ''sweet'', ''chocolate'']"

definition booking_keywords :: "string list" where
  "booking_keywords = [''book'', ''reserve'', ''table'', ''reservation'']"

definition burgundy :: string where
  "burgundy = ''Grand Cru Burgundy 2015''"

definition champagne :: string where
  "champagne = ''Vintage Champagne Brut 2008''"

definition wagyu :: string where
  "wagyu = ''A5 Miyazaki Wagyu with black truffle jus''"

definition romanesco :: string where
  "romanesco = ''Charred Romanesco with almond velout'' @ [CHR 0xC3, CHR 0xA9]"

definition marquis :: string where
  "marquis = ''72% Dark Chocolate Marquis with gold leaf''"

definition wine_sentence :: string where
  "wine_sentence =
     ''Our sommelier recommends a Grand Cru Burgundy with rich mains or a vintage Champagne to open the evening.''"

definition steak_sentence :: string where
  "steak_sentence =
     ''Our signature A5 Wagyu is seared over binchotan and finished with truffle jus.''"

definition vegan_sentence :: string where
  "vegan_sentence =
     ''We offer refined plant-forward courses like Charred Romanesco with almond velout''
       @ [CHR 0xC3, CHR 0xA9] @ ''.''"

definition dessert_sentence :: string where
  "dessert_sentence =
     ''For dessert, the Dark Chocolate Marquis adorned with gold leaf is exquisite.''"

definition booking_sentence :: string where
  "booking_sentence = ''I can book a table for you. Please share date, time, and party size.''"

definition welcome_sentence :: string where
  "welcome_sentence =
     ''Welcome to '' @ [CHR 0xC3, CHR 0x89] @ ''toile Noire. Tell me what you enjoy (steak, vegan, wine) or say ''
       @ [CHR 0x27] @ ''reserve'' @ [CHR 0x27] @ '' to book a table.''"

subsection \<open>\<open>simple_recommender\<close>\<close>

text \<open>
  The five \<open>if\<close> statements of the source in their order, each updating
  \<open>suggestions\<close> and \<open>reply\<close>. The appended literals of the source start with a
  space (\<open>" Our signature ..."\<close>); here that is \<open>CHR '' '' # steak_sentence\<close>.
\<close>

definition simple_recommender :: "(string \<Rightarrow> string) \<Rightarrow> string \<Rightarrow> ChatResponse" where
  "simple_recommender lower text =
     (let t = lower text;
          suggestions = [];
          reply = [];
          (suggestions, reply) =
            (if any_in wine_keywords t
             then ((suggestions @ [burgundy]) @ [champagne], wine_sentence)
             else (suggestions, reply));
          (suggestions, reply) =
            (if any_in steak_keywords t
             then (suggestions @ [wagyu], py_strip (reply @ '' '') @ CHR '' '' # steak_sentence)
             else (suggestions, reply));
          (suggestions, reply) =
            (if any_in vegan_keywords t
             then (suggestions @ [romanesco], py_strip (reply @ '' '') @ CHR '' '' # vegan_sentence)
             else (suggestions, reply));
          (suggestions, reply) =
            (if any_in dessert_keywords t
             then (suggestions @ [marquis], py_strip (reply @ '' '') @ CHR '' '' # dessert_sentence)
             else (suggestions, reply));
          maybe_reservation = None;
          reply =
            (if any_in booking_keywords t
             then py_strip (reply @ '' '') @ CHR '' '' # booking_sentence
             else reply);
          reply = (if reply = [] then welcome_sentence else reply)
      in \<lparr>reply = reply, suggestions = suggestions, maybe_reservation = maybe_reservation\<rparr>)"

subsection \<open>\<open>chat_endpoint\<close>\<close>

text \<open>
  The text handed to the responder: \<open>user_texts[-1] if user_texts else
  req.messages[-1].content\<close>. It is only evaluated on a non-empty message list.
\<close>

definition last_text :: "ChatMessage list \<Rightarrow> string" where
  "last_text ms =
     (let user_texts = map content (filter (\<lambda>m. role m = ''user'') ms)
      in if user_texts \<noteq> [] then last user_texts else content (last ms))"

definition chat_endpoint :: "(string \<Rightarrow> string) \<Rightarrow> ChatRequest \<Rightarrow> http_exception + ChatResponse" where
  "chat_endpoint lower req =
     (if messages req = [] then Inl (HTTPException 400 ''No messages provided'')
      else Inr (simple_recommender lower (last_text (messages req))))"

definition post_api_chat :: "(string \<Rightarrow> string) \<Rightarrow> ChatRequest \<Rightarrow> ChatResponse http_response" where
  "post_api_chat lower req = respond (chat_endpoint lower req)"

section \<open>The statements to compare with\<close>

text \<open>
  The sentences of the groups that match a lower-cased text, in the fixed group
  order, and their concatenation with single spaces between them. A group matches
  when one of its keywords is a contiguous sublist of the text.
\<close>

definition matched_sentences :: "string \<Rightarrow> string list" where
  "matched_sentences t =
     (if \<exists>k\<in>set wine_keywords. sublist k t then [wine_sentence] else []) @
     (if \<exists>k\<in>set steak_keywords. sublist k t then [steak_sentence] else []) @
     (if \<exists>k\<in>set vegan_keywords. sublist k t then [vegan_sentence] else []) @
     (if \<exists>k\<in>set dessert_keywords. sublist k t then [dessert_sentence] else []) @
     (if \<exists>k\<in>set booking_keywords. sublist k t then [booking_sentence] else [])"

fun join_spaces :: "string list \<Rightarrow> string" where
  "join_spaces [] = []"
| "join_spaces [s] = s"
| "join_spaces (s # s' # ss) = s @ CHR '' '' # join_spaces (s' # ss)"

text \<open>How many of the four suggestion groups match a lower-cased text.\<close>

definition matched_group_count :: "string \<Rightarrow> nat" where
  "matched_group_count t =
     length (filter (\<lambda>ks. \<exists>k\<in>set ks. sublist k t)
       [wine_keywords, steak_keywords, vegan_keywords, dessert_keywords])"

text \<open>An answer to the listing holds at most \<open>n\<close> items; an error answer holds none.\<close>

definition at_most :: "int \<Rightarrow> items_response http_response \<Rightarrow> bool" where
  "at_most n answer =
     (case answer of
        Ok_response r \<Rightarrow> int (length (items r)) \<le> n
      | Error_response c d \<Rightarrow> True)"

text \<open>
  A string with no whitespace at either end, and the shape \<open>reply\<close> has after each
  step: empty while no sentence was appended, else the sentences so far joined by
  single spaces, with one space in front when \<open>lead\<close> holds.
\<close>

definition trimmed :: "string \<Rightarrow> bool" where
  "trimmed s = (s \<noteq> [] \<and> \<not> py_isspace (hd s) \<and> \<not> py_isspace (last s))"

definition built :: "string \<Rightarrow> string list \<Rightarrow> bool \<Rightarrow> bool" where
  "built r ss lead =
     (if ss = [] then r = []
      else trimmed (join_spaces ss)
        \<and> r = (if lead then CHR '' '' # join_spaces ss else join_spaces ss))"

subsection \<open>Example inputs\<close>

definition reserve_text :: string where
  "reserve_text = ''I'' @ [CHR 0x27] @ ''d like to reserve a table''"

definition env_working :: environment where
  "env_working =
     \<lparr>db = Some \<lparr>name_attr = Attribute ''etoile'',
                  list_collection_names = Inr [''c01'', ''c02'', ''c03'', ''c04'', ''c05'', ''c06'',
                    ''c07'', ''c08'', ''c09'', ''c10'', ''c11'', ''c12'']\<rparr>,
      DATABASE_URL = Some ''mongodb://localhost''\<rparr>"

definition env_name_raises :: environment where
  "env_name_raises =
     \<lparr>db = Some \<lparr>name_attr = Attribute_raises (Exception ''proxy closed''),
                  list_collection_names = Inr [''reservation'']\<rparr>,
      DATABASE_URL = None\<rparr>"

definition env_listing_raises :: environment where
  "env_listing_raises =
     \<lparr>db = Some \<lparr>name_attr = No_attribute,
                  list_collection_names = Inl (Exception ''connection refused'')\<rparr>,
      DATABASE_URL = Some []\<rparr>"

definition body_with_party :: "int \<Rightarrow> reservation_body" where
  "body_with_party n =
     \<lparr>body_name = Some ''Ada'', body_phone = Some ''0123'', body_date = Some ''2025-01-01'',
      body_time = Some ''19:30'', body_party_size = Some n, body_occasion = None, body_notes = None\<rparr>"

definition three_records :: "stored list" where
  "three_records =
     [\<lparr>oid = ''65f0a1'', contents = [''name'' \<mapsto> StrV ''Ada'', ''party_size'' \<mapsto> IntV 2]\<rparr>,
      \<lparr>oid = ''65f0a2'', contents = [''name'' \<mapsto> StrV ''Bob'', ''id'' \<mapsto> IntV 7]\<rparr>,
      \<lparr>oid = ''65f0a3'', contents = [''name'' \<mapsto> StrV ''Cy'', ''notes'' \<mapsto> NoneV]\<rparr>]"

section \<open>Lemmas\<close>

subsection \<open>Substrings and whitespace\<close>

lemma py_in_iff_sublist: "py_in k t \<longleftrightarrow> sublist k t"
  by (induction t) (auto simp: sublist_Cons_right)

lemma any_in_iff: "any_in ks t \<longleftrightarrow> (\<exists>k\<in>set ks. sublist k t)"
  by (simp add: any_in_def list_ex_iff py_in_iff_sublist)

lemmas kw_defs = any_in_def wine_keywords_def steak_keywords_def vegan_keywords_def
  dessert_keywords_def booking_keywords_def ascii_lower_def lower_char_def

lemma py_isspace_space: "py_isspace CHR '' ''"
  by (simp add: py_isspace_def)

lemma py_strip_Nil: "py_strip [] = []"
  by (simp add: py_strip_def)

lemma py_strip_Cons_space: "py_strip (CHR '' '' # r) = py_strip r"
  by (simp add: py_strip_def py_isspace_space)

lemma py_strip_append_space: "py_strip (r @ '' '') = py_strip r"
proof (cases "\<forall>c\<in>set r. py_isspace c")
  case True
  then have a: "dropWhile py_isspace (r @ '' '') = []" and b: "dropWhile py_isspace r = []"
    by (simp_all add: dropWhile_eq_Nil_conv py_isspace_space)
  show ?thesis
    unfolding py_strip_def a b by simp
next
  case False
  then obtain c where "c \<in> set r" and "\<not> py_isspace c"
    by blast
  then have "dropWhile py_isspace (r @ '' '') = dropWhile py_isspace r @ '' ''"
    by (rule dropWhile_append1)
  then show ?thesis
    by (simp add: py_strip_def py_isspace_space)
qed

lemma py_strip_trimmed: "trimmed s \<Longrightarrow> py_strip s = s"
proof -
  assume t: "trimmed s"
  then have a: "dropWhile py_isspace s = s"
    by (simp add: trimmed_def dropWhile_eq_self_iff)
  from t have b: "dropWhile py_isspace (rev s) = rev s"
    by (simp add: trimmed_def dropWhile_eq_self_iff hd_rev)
  show ?thesis
    unfolding py_strip_def a b by simp
qed

lemma trimmed_join: "trimmed a \<Longrightarrow> trimmed b \<Longrightarrow> trimmed (a @ CHR '' '' # b)"
  by (cases a) (auto simp: trimmed_def)

lemma trimmed_sentences:
  "trimmed wine_sentence" "trimmed steak_sentence" "trimmed vegan_sentence"
  "trimmed dessert_sentence" "trimmed booking_sentence"
  by (simp_all add: trimmed_def py_isspace_def wine_sentence_def steak_sentence_def
      vegan_sentence_def dessert_sentence_def booking_sentence_def)

lemma welcome_sentence_not_Nil: "welcome_sentence \<noteq> []"
  by (simp add: welcome_sentence_def)

lemma wine_sentence_not_Nil: "wine_sentence \<noteq> []"
  by (simp add: wine_sentence_def)

subsection \<open>The reply, step by step\<close>

lemma join_spaces_snoc:
  "join_spaces (ss @ [s]) = (if ss = [] then s else join_spaces ss @ CHR '' '' # s)"
  by (induction ss rule: join_spaces.induct) auto

lemma built_first: "trimmed s \<Longrightarrow> built (if c then s else []) (if c then [s] else []) False"
  by (simp add: built_def)

lemma built_step:
  assumes "built r ss lead" and "trimmed s"
  shows "built (if c then py_strip (r @ '' '') @ CHR '' '' # s else r)
           (ss @ (if c then [s] else [])) (if c then ss = [] else lead)"
proof (cases c)
  case False
  with assms show ?thesis by simp
next
  case True
  show ?thesis
  proof (cases "ss = []")
    case True
    with assms \<open>c\<close> show ?thesis
      by (simp add: built_def py_strip_Nil py_strip_Cons_space)
  next
    case False
    with assms have t: "trimmed (join_spaces ss)"
      and r: "r = (if lead then CHR '' '' # join_spaces ss else join_spaces ss)"
      by (simp_all add: built_def)
    from r t have "py_strip (r @ '' '') = join_spaces ss"
      by (simp add: py_strip_append_space py_strip_Cons_space py_strip_trimmed)
    with False \<open>c\<close> t assms(2) show ?thesis
      by (simp add: built_def join_spaces_snoc trimmed_join)
  qed
qed

lemma reply_stages:
  "reply (simple_recommender lower text) =
     (let t = lower text;
          r1 = (if any_in wine_keywords t then wine_sentence else []);
          r2 = (if any_in steak_keywords t then py_strip (r1 @ '' '') @ CHR '' '' # steak_sentence else r1);
          r3 = (if any_in vegan_keywords t then py_strip (r2 @ '' '') @ CHR '' '' # vegan_sentence else r2);
          r4 = (if any_in dessert_keywords t then py_strip (r3 @ '' '') @ CHR '' '' # dessert_sentence else r3);
          r5 = (if any_in booking_keywords t then py_strip (r4 @ '' '') @ CHR '' '' # booking_sentence else r4)
      in if r5 = [] then welcome_sentence else r5)"
  by (simp add: simple_recommender_def Let_def)

lemma suggestions_stages:
  "suggestions (simple_recommender lower text) =
     (if any_in wine_keywords (lower text) then [burgundy, champagne] else []) @
     (if any_in steak_keywords (lower text) then [wagyu] else []) @
     (if any_in vegan_keywords (lower text) then [romanesco] else []) @
     (if any_in dessert_keywords (lower text) then [marquis] else [])"
  by (simp add: simple_recommender_def Let_def)

lemma reply_built:
  "\<exists>r. built r (matched_sentences (lower text))
         (\<not> (\<exists>k\<in>set wine_keywords. sublist k (lower text))
            \<and> length (matched_sentences (lower text)) = 1)
     \<and> reply (simple_recommender lower text) = (if r = [] then welcome_sentence else r)"
proof -
  define t where "t = lower text"
  define w where "w = any_in wine_keywords t"
  define s where "s = any_in steak_keywords t"
  define v where "v = any_in vegan_keywords t"
  define d where "d = any_in dessert_keywords t"
  define b where "b = any_in booking_keywords t"
  define s1 where "s1 = (if w then [wine_sentence] else [])"
  define s2 where "s2 = s1 @ (if s then [steak_sentence] else [])"
  define s3 where "s3 = s2 @ (if v then [vegan_sentence] else [])"
  define s4 where "s4 = s3 @ (if d then [dessert_sentence] else [])"
  define s5 where "s5 = s4 @ (if b then [booking_sentence] else [])"
  define r1 where "r1 = (if w then wine_sentence else [])"
  define r2 where "r2 = (if s then py_strip (r1 @ '' '') @ CHR '' '' # steak_sentence else r1)"
  define r3 where "r3 = (if v then py_strip (r2 @ '' '') @ CHR '' '' # vegan_sentence else r2)"
  define r4 where "r4 = (if d then py_strip (r3 @ '' '') @ CHR '' '' # dessert_sentence else r3)"
  define r where "r = (if b then py_strip (r4 @ '' '') @ CHR '' '' # booking_sentence else r4)"
  define l2 where "l2 = (if s then s1 = [] else False)"
  define l3 where "l3 = (if v then s2 = [] else l2)"
  define l4 where "l4 = (if d then s3 = [] else l3)"
  define l5 where "l5 = (if b then s4 = [] else l4)"
  have b1: "built r1 s1 False"
    unfolding r1_def s1_def by (rule built_first [OF trimmed_sentences(1)])
  have b2: "built r2 s2 l2"
    unfolding r2_def s2_def l2_def by (rule built_step [OF b1 trimmed_sentences(2)])
  have b3: "built r3 s3 l3"
    unfolding r3_def s3_def l3_def by (rule built_step [OF b2 trimmed_sentences(3)])
  have b4: "built r4 s4 l4"
    unfolding r4_def s4_def l4_def by (rule built_step [OF b3 trimmed_sentences(4)])
  have b5: "built r s5 l5"
    unfolding r_def s5_def l5_def by (rule built_step [OF b4 trimmed_sentences(5)])
  have ss: "matched_sentences (lower text) = s5"
    unfolding s5_def s4_def s3_def s2_def s1_def w_def s_def v_def d_def b_def t_def
      matched_sentences_def any_in_iff by (simp only: append_assoc)
  have lead: "l5 = (\<not> w \<and> length s5 = 1)"
    unfolding l5_def l4_def l3_def l2_def s5_def s4_def s3_def s2_def s1_def
    by (cases w; cases s; cases v; cases d; cases b; simp)
  have wine: "w = (\<exists>k\<in>set wine_keywords. sublist k (lower text))"
    unfolding w_def t_def by (rule any_in_iff)
  have "reply (simple_recommender lower text) = (if r = [] then welcome_sentence else r)"
    unfolding reply_stages Let_def r_def r4_def r3_def r2_def r1_def
      w_def s_def v_def d_def b_def t_def by (rule refl)
  with b5 show ?thesis
    unfolding ss lead wine [symmetric] by blast
qed

lemma reply_booking:
  assumes "any_in booking_keywords (lower text)"
  shows "\<exists>p. reply (simple_recommender lower text) = p @ CHR '' '' # booking_sentence"
  using assms by (simp add: reply_stages Let_def)

subsection \<open>The statements to compare with, by the responder's own test\<close>

lemma matched_sentences_any_in:
  "matched_sentences t =
     (if any_in wine_keywords t then [wine_sentence] else []) @
     (if any_in steak_keywords t then [steak_sentence] else []) @
     (if any_in vegan_keywords t then [vegan_sentence] else []) @
     (if any_in dessert_keywords t then [dessert_sentence] else []) @
     (if any_in booking_keywords t then [booking_sentence] else [])"
  by (simp only: matched_sentences_def any_in_iff)

lemma matched_group_count_any_in:
  "matched_group_count t =
     length (filter (\<lambda>ks. any_in ks t)
       [wine_keywords, steak_keywords, vegan_keywords, dessert_keywords])"
  by (simp only: matched_group_count_def any_in_iff)

subsection \<open>The message handed to the responder\<close>

lemma last_text_user:
  assumes "ms = pre @ m # post" and "role m = ''user''" and "\<forall>x\<in>set post. role x \<noteq> ''user''"
  shows "last_text ms = content m"
proof -
  from assms(3) have "filter (\<lambda>m. role m = ''user'') post = []"
    by (simp add: filter_empty_conv)
  with assms(1,2) have "filter (\<lambda>m. role m = ''user'') ms = filter (\<lambda>m. role m = ''user'') pre @ [m]"
    by simp
  then show ?thesis
    by (simp add: last_text_def)
qed

lemma last_text_no_user:
  assumes "\<forall>x\<in>set ms. role x \<noteq> ''user''"
  shows "last_text ms = content (last ms)"
proof -
  from assms have "filter (\<lambda>m. role m = ''user'') ms = []"
    by (simp add: filter_empty_conv)
  then show ?thesis
    by (simp add: last_text_def)
qed

subsection \<open>The handler of \<open>POST /api/reservations\<close>\<close>

text \<open>
  The handler raises its \<open>HTTPException\<close> with status 400 exactly when the canonical
  schema or \<open>create_document\<close> raises, and the detail is then \<open>str(e)\<close>.
\<close>

lemma create_reservation_400:
  "(\<exists>d. create_reservation ReservationSchema create_document payload = Inl (HTTPException 400 d))
   \<longleftrightarrow> (\<exists>e. ReservationSchema payload = Inl e)
       \<or> (\<exists>r e. ReservationSchema payload = Inr r \<and> create_document r = Inl e)"
  by (auto simp: create_reservation_def split: sum.splits)

lemma convert_id_has_id: "d ''_id'' = Some v \<Longrightarrow> convert_id d ''id'' = Some (StrV (str_value v))"
  by (simp add: convert_id_def)

lemma convert_id_no_raw: "convert_id d ''_id'' = None"
  by (simp add: convert_id_def split: option.split)

text \<open>
  Below zero no answered listing keeps within the limit, whatever the store does:
  the handler itself never shortens what the store returns.
\<close>

lemma negative_limit_not_met:
  "N < 0 \<Longrightarrow> get_api_reservations below_zero collection N = Ok_response r
     \<Longrightarrow> \<not> at_most N (get_api_reservations below_zero collection N)"
  by (simp add: at_most_def)

lemma list_reservations_keeps_length:
  "get_docs N = Inr docs \<Longrightarrow>
     list_reservations get_docs N = Inr r \<Longrightarrow> length (items r) = length docs"
  by (auto simp: list_reservations_def)

subsection \<open>The reply is never empty\<close>

lemma reply_not_Nil: "reply (simple_recommender lower text) \<noteq> []"
proof -
  obtain r where "reply (simple_recommender lower text) = (if r = [] then welcome_sentence else r)"
    using reply_built by blast
  then show ?thesis
    by (simp add: welcome_sentence_not_Nil)
qed

section \<open>The claims\<close>

text \<open>
  C1, amended. A creation request whose body has \<open>party_size\<close> 0 or 21 and the four
  other required fields is answered with status 422 and the validation error of
  \<open>party_size\<close>, whatever the canonical schema and the store would do: the body
  fails the model \<open>ReservationCreate\<close> (\<open>ge=1, le=20\<close>) before \<open>create_reservation\<close>
  is called, so the handler's status 400 is never produced for it.
\<close>

theorem party_size_out_of_range_422:
  assumes "body_party_size body = Some 0 \<or> body_party_size body = Some 21"
    and "body_name body \<noteq> None" and "body_phone body \<noteq> None"
    and "body_date body \<noteq> None" and "body_time body \<noteq> None"
  shows "post_api_reservations ReservationSchema create_document body
           = Error_response 422 (Validation_errors [''party_size''])"
  using assms
  by (auto simp: post_api_reservations_def parse_ReservationCreate_def validation_errors_def)

theorem party_size_out_of_range_422_witness:
  "post_api_reservations (\<lambda>p. Inr p) (\<lambda>r. Inr ''65f0'') (body_with_party 21)
     = Error_response 422 (Validation_errors [''party_size''])"
  using party_size_out_of_range_422 [of "body_with_party 21" "\<lambda>p. Inr p" "\<lambda>r. Inr ''65f0''"]
  by (simp add: body_with_party_def)

text \<open>
  C1 as stated fails: with every required field present and a schema and a store
  that accept everything, \<open>party_size\<close> 0 and \<open>party_size\<close> 21 are answered with
  status 422, not 400.
\<close>

theorem party_size_out_of_range_not_400:
  "status_of (post_api_reservations (\<lambda>p. Inr p) (\<lambda>r. Inr ''65f0'') (body_with_party 0)) = 422
   \<and> status_of (post_api_reservations (\<lambda>p. Inr p) (\<lambda>r. Inr ''65f0'') (body_with_party 21)) = 422"
  by (simp add: post_api_reservations_def parse_ReservationCreate_def validation_errors_def
      body_with_party_def)

text \<open>
  C2. For every input text: when no group matches the reply is the welcome
  sentence; when the wine group matches, or two or more groups match, the reply is
  exactly the sentences of the matched groups in the fixed order (wine, steak,
  vegan, dessert, booking) joined by single spaces, with no whitespace at either
  end, as the claim says; when a single group matches and it is not the wine group,
  the reply is that group's sentence with one space in front of it, which the
  claim excludes. The branches other than the wine branch build
  \<open>(reply + " ").strip() + " " + sentence\<close>, and on an empty \<open>reply\<close> the space before
  the sentence is not removed by any later \<open>strip\<close>.
\<close>

theorem reply_joined_except_single_group:
  "(matched_sentences (lower text) = [] \<longrightarrow>
      reply (simple_recommender lower text) = welcome_sentence)
   \<and> (matched_sentences (lower text) \<noteq> []
        \<and> ((\<exists>k\<in>set wine_keywords. sublist k (lower text))
           \<or> length (matched_sentences (lower text)) \<noteq> 1) \<longrightarrow>
      reply (simple_recommender lower text) = join_spaces (matched_sentences (lower text))
      \<and> \<not> py_isspace (hd (reply (simple_recommender lower text)))
      \<and> \<not> py_isspace (last (reply (simple_recommender lower text))))
   \<and> (\<not> (\<exists>k\<in>set wine_keywords. sublist k (lower text))
        \<and> length (matched_sentences (lower text)) = 1 \<longrightarrow>
      reply (simple_recommender lower text)
        = CHR '' '' # join_spaces (matched_sentences (lower text))
      \<and> py_isspace (hd (reply (simple_recommender lower text)))
      \<and> \<not> py_isspace (last (reply (simple_recommender lower text))))"
proof -
  define ss where "ss = matched_sentences (lower text)"
  define lead where
    "lead = (\<not> (\<exists>k\<in>set wine_keywords. sublist k (lower text)) \<and> length ss = 1)"
  obtain r where b: "built r ss lead"
    and rep: "reply (simple_recommender lower text) = (if r = [] then welcome_sentence else r)"
    unfolding ss_def lead_def using reply_built by blast
  show ?thesis
  proof (cases "ss = []")
    case True
    with b have "r = []" by (simp add: built_def)
    with True rep show ?thesis by (simp add: ss_def)
  next
    case False
    with b have tr: "trimmed (join_spaces ss)"
      and r: "r = (if lead then CHR '' '' # join_spaces ss else join_spaces ss)"
      by (simp_all add: built_def)
    from tr have ne: "join_spaces ss \<noteq> []"
      and h: "\<not> py_isspace (hd (join_spaces ss))"
      and l: "\<not> py_isspace (last (join_spaces ss))"
      by (simp_all add: trimmed_def)
    from r ne have "r \<noteq> []" by simp
    with rep have eq: "reply (simple_recommender lower text) = r" by simp
    show ?thesis
    proof (cases lead)
      case True
      with r eq have "reply (simple_recommender lower text) = CHR '' '' # join_spaces ss"
        by simp
      with True False ne l show ?thesis
        unfolding ss_def lead_def by (simp add: py_isspace_space)
    next
      case nl: False
      with r eq have "reply (simple_recommender lower text) = join_spaces ss"
        by simp
      with nl False h l show ?thesis
        unfolding ss_def lead_def by simp
    qed
  qed
qed

theorem reply_joined_except_single_group_witness:
  "reply (simple_recommender ascii_lower ''Steak and Dessert, a table please'')
     = steak_sentence @ '' '' @ dessert_sentence @ '' '' @ booking_sentence
   \<and> reply (simple_recommender ascii_lower ''Wine'') = wine_sentence
   \<and> reply (simple_recommender ascii_lower ''Vegan'') = CHR '' '' # vegan_sentence
   \<and> reply (simple_recommender ascii_lower ''Good evening'') = welcome_sentence"
  using reply_joined_except_single_group [of ascii_lower "''Steak and Dessert, a table please''"]
    reply_joined_except_single_group [of ascii_lower "''Wine''"]
    reply_joined_except_single_group [of ascii_lower "''Vegan''"]
    reply_joined_except_single_group [of ascii_lower "''Good evening''"]
  by (simp add: matched_sentences_any_in py_in_iff_sublist [symmetric] kw_defs)

text \<open>
  C2 fails on the text \<open>steak\<close>: the steak group alone matches, the joined sentences
  are the steak sentence, and the reply is that sentence with a space before it.
\<close>

theorem reply_not_joined_sentences:
  "reply (simple_recommender ascii_lower ''steak'') = CHR '' '' # steak_sentence
   \<and> join_spaces (matched_sentences (ascii_lower ''steak'')) = steak_sentence
   \<and> py_isspace (hd (reply (simple_recommender ascii_lower ''steak'')))"
  by (simp add: simple_recommender_def Let_def matched_sentences_any_in
      kw_defs py_strip_def py_isspace_def)

text \<open>
  C3, amended. For every input text the suggestions list is, in group order: the
  two wine suggestions when the wine group matches, then one suggestion for each
  of the steak, vegan and dessert groups that matches; a group that does not match
  adds nothing.
\<close>

theorem suggestions_by_group:
  "suggestions (simple_recommender lower text) =
     (if \<exists>k\<in>set wine_keywords. sublist k (lower text) then [burgundy, champagne] else []) @
     (if \<exists>k\<in>set steak_keywords. sublist k (lower text) then [wagyu] else []) @
     (if \<exists>k\<in>set vegan_keywords. sublist k (lower text) then [romanesco] else []) @
     (if \<exists>k\<in>set dessert_keywords. sublist k (lower text) then [marquis] else [])"
  by (simp only: suggestions_stages any_in_iff)

theorem suggestions_by_group_witness:
  "suggestions (simple_recommender ascii_lower ''Wine and Steak'') = [burgundy, champagne, wagyu]"
  using suggestions_by_group [of ascii_lower "''Wine and Steak''"]
  by (simp add: py_in_iff_sublist [symmetric] kw_defs)

text \<open>
  C3 as stated fails: on \<open>wine\<close> one of the four groups matches and two suggestions
  are appended.
\<close>

theorem wine_appends_two_suggestions:
  "matched_group_count (ascii_lower ''wine'') = 1
   \<and> length (suggestions (simple_recommender ascii_lower ''wine'')) = 2
   \<and> suggestions (simple_recommender ascii_lower ''wine'') = [burgundy, champagne]"
  by (simp add: simple_recommender_def Let_def matched_group_count_any_in kw_defs)

text \<open>
  C4, amended. For every limit \<open>N\<close> of zero or more, every content of the collection
  and whatever the store does with a limit below zero: the listing returns at most
  \<open>N\<close> items (as many as the collection has, up to \<open>N\<close>), and every returned item has
  a string under \<open>"id"\<close> and nothing under \<open>"_id"\<close>. When the collection cannot be
  read the answer is status 500 with the failure as text.
\<close>

theorem list_reservations_nonneg_limit_and_ids:
  assumes "0 \<le> N"
  shows "(\<forall>e. collection = Inl e \<longrightarrow>
      get_api_reservations below_zero collection N = Error_response 500 (Text (str_exn e)))
   \<and> (\<forall>records. collection = Inr records \<longrightarrow>
        (\<exists>r. get_api_reservations below_zero collection N = Ok_response r
           \<and> int (length (items r)) \<le> N
           \<and> length (items r) = min (nat N) (length records)
           \<and> (\<forall>d\<in>set (items r). (\<exists>s. d ''id'' = Some (StrV s)) \<and> d ''_id'' = None)))
   \<and> at_most N (get_api_reservations below_zero collection N)"
  using assms
  by (auto simp: get_api_reservations_def list_reservations_def get_documents_def
      stored_document_def convert_id_def at_most_def split: sum.splits)

theorem list_reservations_nonneg_limit_and_ids_witness:
  "(\<exists>r. get_api_reservations (\<lambda>records limit. Inr []) (Inr three_records) 2 = Ok_response r
       \<and> length (items r) = 2
       \<and> map (\<lambda>d. d ''id'') (items r) = [Some (StrV ''65f0a1''), Some (StrV ''65f0a2'')])
   \<and> get_api_reservations (\<lambda>records limit. Inr []) (Inl (Exception ''store down'')) 2
       = Error_response 500 (Text ''store down'')"
  using list_reservations_nonneg_limit_and_ids [of 2 "Inr three_records" "\<lambda>records limit. Inr []"]
    list_reservations_nonneg_limit_and_ids
      [of 2 "Inl (Exception ''store down'')" "\<lambda>records limit. Inr []"]
  by (auto simp: three_records_def get_api_reservations_def list_reservations_def
      get_documents_def stored_document_def convert_id_def)

text \<open>
  C4 as stated fails at \<open>N = -1\<close>: the route takes any integer as \<open>limit\<close>, and a
  listing that is answered holds zero or more items, which is more than \<open>-1\<close>. This
  is so when the store returns no record for a limit below zero, when it returns
  \<open>-limit\<close> records, and when it returns every record.
\<close>

theorem negative_limit_exceeds:
  "\<not> at_most (- 1) (get_api_reservations (\<lambda>records limit. Inr []) (Inr three_records) (- 1))
   \<and> \<not> at_most (- 1) (get_api_reservations
          (\<lambda>records limit. Inr (map stored_document (take (nat (- limit)) records)))
          (Inr three_records) (- 1))
   \<and> \<not> at_most (- 1) (get_api_reservations
          (\<lambda>records limit. Inr (map stored_document records)) (Inr three_records) (- 1))
   \<and> (\<exists>r. get_api_reservations (\<lambda>records limit. Inr []) (Inr three_records) (- 1)
          = Ok_response r \<and> length (items r) = 0)"
  by (simp add: at_most_def get_api_reservations_def list_reservations_def get_documents_def
      three_records_def)

text \<open>
  C5. \<open>GET /test\<close> returns for every state of the store handle and of the
  environment: the handler never raises and the answer has status 200. The
  collections in the answer are the first ten names the store lists, and none when
  the handle is missing or a read fails. A failure while reading the handle's name
  and a failure while listing the collections each end as a status string in the
  field \<open>database\<close> that carries the first 50 characters of the failure's text.
\<close>

theorem test_database_never_fails:
  "\<exists>r. test_database env = Inr r \<and> get_test env = Ok_response r \<and> status_of (get_test env) = 200
     \<and> length (collections r) \<le> 10
     \<and> collections r =
         (case db env of
            None \<Rightarrow> []
          | Some d \<Rightarrow>
              (case name_attr d of
                 Attribute_raises e \<Rightarrow> []
               | _ \<Rightarrow> (case list_collection_names d of Inl e \<Rightarrow> [] | Inr names \<Rightarrow> take 10 names)))
     \<and> (\<forall>d e. db env = Some d \<and> name_attr d = Attribute_raises e
           \<longrightarrow> database r = cross_mark @ '' Error: '' @ take 50 (str_exn e))
     \<and> (\<forall>d e. db env = Some d \<and> (\<forall>a. name_attr d \<noteq> Attribute_raises a)
             \<and> list_collection_names d = Inl e
           \<longrightarrow> database r = warning_sign @ ''  Connected but Error: '' @ take 50 (str_exn e))"
  by (auto simp: get_test_def test_database_def outer_try_def inner_try_def Let_def
      split: option.splits attribute.splits sum.splits)

theorem test_database_never_fails_witness:
  "(\<exists>r. get_test env_working = Ok_response r
       \<and> collections r = [''c01'', ''c02'', ''c03'', ''c04'', ''c05'', ''c06'', ''c07'', ''c08'',
            ''c09'', ''c10''])
   \<and> (\<exists>r. get_test env_name_raises = Ok_response r
       \<and> database r = cross_mark @ '' Error: proxy closed'' \<and> collections r = [])
   \<and> (\<exists>r. get_test env_listing_raises = Ok_response r
       \<and> database r = warning_sign @ ''  Connected but Error: connection refused''
       \<and> collections r = [])"
  using test_database_never_fails [of env_working] test_database_never_fails [of env_name_raises]
    test_database_never_fails [of env_listing_raises]
  by (auto simp: env_working_def env_name_raises_def env_listing_raises_def)

text \<open>
  C6. For a non-empty message list the responder is called on the content of the
  last message whose role is \<open>user\<close>: the message \<open>m\<close> with role \<open>user\<close> after which
  no message has that role. When no message has role \<open>user\<close> it is called on the
  content of the last message of the list.
\<close>

theorem chat_endpoint_selects_last_user_message:
  "(messages req = pre @ m # post \<and> role m = ''user'' \<and> (\<forall>x\<in>set post. role x \<noteq> ''user'')
      \<longrightarrow> chat_endpoint lower req = Inr (simple_recommender lower (content m)))
   \<and> (messages req \<noteq> [] \<and> (\<forall>x\<in>set (messages req). role x \<noteq> ''user'')
      \<longrightarrow> chat_endpoint lower req = Inr (simple_recommender lower (content (last (messages req)))))"
  by (auto simp: chat_endpoint_def last_text_user last_text_no_user)

theorem chat_endpoint_selects_last_user_message_witness:
  "chat_endpoint ascii_lower
     \<lparr>messages = [\<lparr>role = ''user'', content = ''wine''\<rparr>, \<lparr>role = ''user'', content = ''steak''\<rparr>,
                  \<lparr>role = ''assistant'', content = ''vegan''\<rparr>]\<rparr>
     = Inr (simple_recommender ascii_lower ''steak'')
   \<and> chat_endpoint ascii_lower
     \<lparr>messages = [\<lparr>role = ''system'', content = ''wine''\<rparr>, \<lparr>role = ''assistant'', content = ''vegan''\<rparr>]\<rparr>
     = Inr (simple_recommender ascii_lower ''vegan'')"
  using chat_endpoint_selects_last_user_message
      [of "\<lparr>messages = [\<lparr>role = ''user'', content = ''wine''\<rparr>, \<lparr>role = ''user'', content = ''steak''\<rparr>,
                  \<lparr>role = ''assistant'', content = ''vegan''\<rparr>]\<rparr>"
      "[\<lparr>role = ''user'', content = ''wine''\<rparr>]" "\<lparr>role = ''user'', content = ''steak''\<rparr>"
      "[\<lparr>role = ''assistant'', content = ''vegan''\<rparr>]" ascii_lower]
    chat_endpoint_selects_last_user_message
      [of "\<lparr>messages = [\<lparr>role = ''system'', content = ''wine''\<rparr>, \<lparr>role = ''assistant'', content = ''vegan''\<rparr>]\<rparr>"
      "[]" "\<lparr>role = ''system'', content = ''wine''\<rparr>" "[]" ascii_lower]
  by simp

text \<open>
  C7. \<open>POST /api/chat\<close> answers with status 400 exactly when the message list of the
  request is empty, then with the detail \<open>No messages provided\<close>; for every
  non-empty list it answers with the chat response the responder returns.
\<close>

theorem chat_400_iff_no_messages:
  "(status_of (post_api_chat lower req) = 400 \<longleftrightarrow> messages req = [])
   \<and> (messages req = [] \<longrightarrow>
        post_api_chat lower req = Error_response 400 (Text ''No messages provided''))
   \<and> (messages req \<noteq> [] \<longrightarrow>
        post_api_chat lower req = Ok_response (simple_recommender lower (last_text (messages req))))"
  by (simp add: post_api_chat_def chat_endpoint_def)

theorem chat_400_iff_no_messages_witness:
  "status_of (post_api_chat ascii_lower \<lparr>messages = []\<rparr>) = 400
   \<and> post_api_chat ascii_lower \<lparr>messages = [\<lparr>role = ''user'', content = ''hello''\<rparr>]\<rparr>
       = Ok_response (simple_recommender ascii_lower ''hello'')"
  using chat_400_iff_no_messages [of ascii_lower "\<lparr>messages = []\<rparr>"]
    chat_400_iff_no_messages [of ascii_lower "\<lparr>messages = [\<lparr>role = ''user'', content = ''hello''\<rparr>]\<rparr>"]
  by (simp add: last_text_def)

text \<open>
  C8. Whenever a keyword of the booking group (book, reserve, table, reservation)
  occurs in the lower-cased text, the reply contains the booking sentence,
  whichever other groups match; the text \<open>I'd like to reserve a table\<close> is such a
  text.
\<close>

theorem booking_sentence_in_reply:
  "((\<exists>k\<in>set booking_keywords. sublist k (lower text)) \<longrightarrow>
      sublist booking_sentence (reply (simple_recommender lower text)))
   \<and> sublist booking_sentence (reply (simple_recommender ascii_lower reserve_text))"
proof -
  have g: "sublist booking_sentence (reply (simple_recommender f x))"
    if "any_in booking_keywords (f x)" for f x
  proof -
    from that obtain p where "reply (simple_recommender f x) = p @ CHR '' '' # booking_sentence"
      using reply_booking by blast
    then have "reply (simple_recommender f x) = (p @ '' '') @ booking_sentence"
      by simp
    then show ?thesis
      by (simp only: sublist_append_leftI)
  qed
  have "any_in booking_keywords (ascii_lower reserve_text)"
    by (simp add: reserve_text_def kw_defs)
  with g show ?thesis
    by (simp add: any_in_iff)
qed

theorem booking_sentence_in_reply_witness:
  "sublist booking_sentence (reply (simple_recommender ascii_lower ''Wine, and book us in''))"
  using booking_sentence_in_reply [of ascii_lower "''Wine, and book us in''"]
  by (simp add: kw_defs py_in_iff_sublist [symmetric])

text \<open>
  C9. When no keyword of any of the five groups occurs in the lower-cased text,
  the reply is exactly the welcome sentence and the suggestions list is empty.
\<close>

theorem no_keyword_gives_welcome:
  assumes "\<forall>k\<in>set (wine_keywords @ steak_keywords @ vegan_keywords @ dessert_keywords
              @ booking_keywords). \<not> sublist k (lower text)"
  shows "reply (simple_recommender lower text) = welcome_sentence
         \<and> suggestions (simple_recommender lower text) = []"
proof -
  from assms have "\<not> any_in wine_keywords (lower text)" "\<not> any_in steak_keywords (lower text)"
    "\<not> any_in vegan_keywords (lower text)" "\<not> any_in dessert_keywords (lower text)"
    "\<not> any_in booking_keywords (lower text)"
    by (auto simp: any_in_iff)
  then show ?thesis
    by (simp add: simple_recommender_def Let_def)
qed

theorem no_keyword_gives_welcome_witness:
  "reply (simple_recommender ascii_lower ''Hello there'') = welcome_sentence
   \<and> suggestions (simple_recommender ascii_lower ''Hello there'') = []"
  using no_keyword_gives_welcome [of ascii_lower "''Hello there''"]
  by (simp add: kw_defs py_in_iff_sublist [symmetric])

text \<open>
  C10. For every input text, the empty text included, the reply of the responder
  is not the empty string.
\<close>

theorem reply_never_empty:
  "reply (simple_recommender lower text) \<noteq> [] \<and> reply (simple_recommender lower []) \<noteq> []"
  by (intro conjI reply_not_Nil)

theorem reply_never_empty_witness:
  "reply (simple_recommender ascii_lower []) \<noteq> []
   \<and> reply (simple_recommender ascii_lower ''steak'') \<noteq> []"
  using reply_never_empty [of ascii_lower "[]"] reply_never_empty [of ascii_lower "''steak''"]
  by blast

end
